theory Spec2Isabelle
  imports Main "HOL-Library.Word" "HOL-Library.Char_ord"
begin

unbundle bit_operations_syntax

section \<open>Go values\<close>

text \<open>
  A Go \<^verbatim>\<open>string\<close> and a \<^verbatim>\<open>[]byte\<close> are sequences of bytes; an Isabelle \<^typ>\<open>char\<close> is one
  byte, so both are modelled as \<^typ>\<open>string\<close>. \<^verbatim>\<open>uint64\<close> is a 64-bit word. A Go
  \<^verbatim>\<open>error\<close> is a value of the datatype below, and \<^verbatim>\<open>nil\<close> is \<^term>\<open>None\<close>.
\<close>

type_synonym uint64 = "64 word"

datatype error =
    ErrSyntax            \<comment> \<open>\<^verbatim>\<open>strconv.ErrSyntax\<close>, wrapped in a \<^verbatim>\<open>*NumError\<close>\<close>
  | ErrRange             \<comment> \<open>\<^verbatim>\<open>strconv.ErrRange\<close>, wrapped in a \<^verbatim>\<open>*NumError\<close>\<close>
  | ErrBase int          \<comment> \<open>\<^verbatim>\<open>invalid base\<close>\<close>
  | ErrBitSize int       \<comment> \<open>\<^verbatim>\<open>invalid bit size\<close>\<close>
  | ErrOther string      \<comment> \<open>any other error (I/O, the Raft node), by its message\<close>

section \<open>\<^verbatim>\<open>strconv\<close>: the functions the handler calls\<close>

text \<open>\<^verbatim>\<open>func lower(c byte) byte { return c | ('x' - 'X') }\<close>\<close>

definition lower :: "char \<Rightarrow> char" where
  "lower c = char_of ((of_char c :: nat) OR 32)"

text \<open>
  \<^verbatim>\<open>underscoreOK\<close>: underscores must separate digits, or follow the base prefix. The loop
  carries \<^verbatim>\<open>saw\<close>, the kind of the last character seen (\<^verbatim>\<open>^ 0 _ !\<close>).
\<close>

fun underscoreOK_loop :: "bool \<Rightarrow> char \<Rightarrow> string \<Rightarrow> bool" where
  "underscoreOK_loop hex saw [] = (saw \<noteq> CHR ''_'')"
| "underscoreOK_loop hex saw (c # s) =
     (if (CHR ''0'' \<le> c \<and> c \<le> CHR ''9'') \<or> (hex \<and> CHR ''a'' \<le> lower c \<and> lower c \<le> CHR ''f'')
      then underscoreOK_loop hex (CHR ''0'') s
      else if c = CHR ''_''
      then (if saw \<noteq> CHR ''0'' then False else underscoreOK_loop hex (CHR ''_'') s)
      else if saw = CHR ''_'' then False
      else underscoreOK_loop hex (CHR ''!'') s)"

definition underscoreOK :: "string \<Rightarrow> bool" where
  "underscoreOK s0 =
     (let s = (if length s0 \<ge> 1 \<and> (s0 ! 0 = CHR ''-'' \<or> s0 ! 0 = CHR ''+'') then drop 1 s0 else s0)
      in if length s \<ge> 2 \<and> s ! 0 = CHR ''0'' \<and>
            (lower (s ! 1) = CHR ''b'' \<or> lower (s ! 1) = CHR ''o'' \<or> lower (s ! 1) = CHR ''x'')
         then underscoreOK_loop (lower (s ! 1) = CHR ''x'') (CHR ''0'') (drop 2 s)
         else underscoreOK_loop False (CHR ''^'') s)"

definition maxUint64 :: uint64 where
  "maxUint64 = 18446744073709551615"

text \<open>\<^verbatim>\<open>strconv.IntSize\<close> on a 64-bit platform.\<close>

definition IntSize :: int where
  "IntSize = 64"

text \<open>
  The digit loop of \<^verbatim>\<open>ParseUint\<close>. It returns \<^term>\<open>Inr (n, underscores)\<close> at the end of the
  string and \<^term>\<open>Inl (v, err)\<close> at the \<^verbatim>\<open>return v, err\<close> of the loop body.
\<close>

fun ParseUint_loop ::
  "bool \<Rightarrow> uint64 \<Rightarrow> uint64 \<Rightarrow> uint64 \<Rightarrow> string \<Rightarrow> uint64 \<Rightarrow> bool \<Rightarrow> (uint64 \<times> error) + (uint64 \<times> bool)"
where
  "ParseUint_loop base0 base cutoff maxVal [] n underscores = Inr (n, underscores)"
| "ParseUint_loop base0 base cutoff maxVal (c # s) n underscores =
     (if c = CHR ''_'' \<and> base0 then ParseUint_loop base0 base cutoff maxVal s n True
      else
        (case (if CHR ''0'' \<le> c \<and> c \<le> CHR ''9''
               then Some ((of_char c :: 8 word) - of_char (CHR ''0''))
               else if CHR ''a'' \<le> lower c \<and> lower c \<le> CHR ''z''
               then Some ((of_char (lower c) :: 8 word) - of_char (CHR ''a'') + 10)
               else None) of
           None \<Rightarrow> Inl (0, ErrSyntax)
         | Some d \<Rightarrow>
             if d \<ge> (ucast base :: 8 word) then Inl (0, ErrSyntax)
             else if n \<ge> cutoff then Inl (maxVal, ErrRange)
             else
               (let n' = n * base; n1 = n' + ucast d
                in if n1 < n' \<or> n1 > maxVal then Inl (maxVal, ErrRange)
                   else ParseUint_loop base0 base cutoff maxVal s n1 underscores)))"

text \<open>
  \<^verbatim>\<open>func ParseUint(s string, base int, bitSize int) (uint64, error)\<close>. The result is the
  pair Go returns. With base 0 the base comes from the prefix: \<^verbatim>\<open>0b\<close>, \<^verbatim>\<open>0o\<close>, \<^verbatim>\<open>0x\<close>, a
  bare leading \<^verbatim>\<open>0\<close> for octal, decimal otherwise, and underscores are allowed.
\<close>

definition ParseUint :: "string \<Rightarrow> int \<Rightarrow> int \<Rightarrow> uint64 \<times> error option" where
  "ParseUint s0 base bitSize =
     (if s0 = [] then (0, Some ErrSyntax)
      else
        (case (if 2 \<le> base \<and> base \<le> 36 then Some (base, s0)
               else if base = 0 then
                 (if s0 ! 0 = CHR ''0'' then
                    (if length s0 \<ge> 3 \<and> lower (s0 ! 1) = CHR ''b'' then Some (2, drop 2 s0)
                     else if length s0 \<ge> 3 \<and> lower (s0 ! 1) = CHR ''o'' then Some (8, drop 2 s0)
                     else if length s0 \<ge> 3 \<and> lower (s0 ! 1) = CHR ''x'' then Some (16, drop 2 s0)
                     else Some (8, drop 1 s0))
                  else Some (10, s0))
               else None) of
           None \<Rightarrow> (0, Some (ErrBase base))
         | Some (b, s) \<Rightarrow>
             if bitSize \<noteq> 0 \<and> (bitSize < 0 \<or> bitSize > 64) then (0, Some (ErrBitSize bitSize))
             else
               (let bits = (if bitSize = 0 then IntSize else bitSize);
                    cutoff = maxUint64 div word_of_int b + 1;
                    maxVal = push_bit (nat bits) (1 :: uint64) - 1
                in case ParseUint_loop (base = 0) (word_of_int b) cutoff maxVal s 0 False of
                     Inl (v, e) \<Rightarrow> (v, Some e)
                   | Inr (n, underscores) \<Rightarrow>
                       if underscores \<and> \<not> underscoreOK s0 then (0, Some ErrSyntax)
                       else (n, None))))"

text \<open>
  \<^verbatim>\<open>strconv.FormatUint(i, 10)\<close>: the decimal digits of \<^verbatim>\<open>i\<close>, most significant first, with
  no leading zero (\<^verbatim>\<open>"0"\<close> for zero). The library writes the digits from the right into a
  buffer; the recursion below produces the same string.
\<close>

fun digits10 :: "nat \<Rightarrow> string" where
  "digits10 n =
     (if n < 10 then [char_of (48 + n)]
      else digits10 (n div 10) @ [char_of (48 + n mod 10)])"

declare digits10.simps [simp del]

definition FormatUint10 :: "uint64 \<Rightarrow> string" where
  "FormatUint10 i = digits10 (unat i)"

text \<open>\<^verbatim>\<open>fmt.Sprintf("%v", b)\<close> for a \<^verbatim>\<open>bool\<close>.\<close>

definition Sprintf_bool :: "bool \<Rightarrow> string" where
  "Sprintf_bool b = (if b then ''true'' else ''false'')"

section \<open>\<^verbatim>\<open>net/http\<close>: headers and the response writer\<close>

text \<open>
  \<^verbatim>\<open>http.Header\<close> is a \<^verbatim>\<open>map[string][]string\<close> whose keys are stored in canonical form
  (\<^verbatim>\<open>textproto.CanonicalMIMEHeaderKey\<close>): the first letter and every letter after a hyphen
  in upper case, the others in lower case; a key with a byte that is not a token byte is
  left as it is.
\<close>

definition validHeaderFieldByte :: "char \<Rightarrow> bool" where
  "validHeaderFieldByte c =
     ((CHR ''0'' \<le> c \<and> c \<le> CHR ''9'') \<or> (CHR ''a'' \<le> c \<and> c \<le> CHR ''z'') \<or>
      (CHR ''A'' \<le> c \<and> c \<le> CHR ''Z'') \<or> c = CHR 0x27 \<or>
      List.member ''!#$%&*+-.^_`|~'' c)"

fun canonical_loop :: "bool \<Rightarrow> string \<Rightarrow> string" where
  "canonical_loop upper [] = []"
| "canonical_loop upper (c # a) =
     (let c' = (if upper \<and> CHR ''a'' \<le> c \<and> c \<le> CHR ''z'' then char_of ((of_char c :: nat) - 32)
                else if \<not> upper \<and> CHR ''A'' \<le> c \<and> c \<le> CHR ''Z'' then char_of ((of_char c :: nat) + 32)
                else c)
      in c' # canonical_loop (c' = CHR ''-'') a)"

definition CanonicalMIMEHeaderKey :: "string \<Rightarrow> string" where
  "CanonicalMIMEHeaderKey s = (if list_all validHeaderFieldByte s then canonical_loop True s else s)"

type_synonym Header = "string \<rightharpoonup> string list"

definition Header_Add :: "Header \<Rightarrow> string \<Rightarrow> string \<Rightarrow> Header" where
  "Header_Add h key v =
     (let k = CanonicalMIMEHeaderKey key
      in h(k \<mapsto> (case h k of None \<Rightarrow> [] | Some vs \<Rightarrow> vs) @ [v]))"

definition Header_Set :: "Header \<Rightarrow> string \<Rightarrow> string \<Rightarrow> Header" where
  "Header_Set h key v = h(CanonicalMIMEHeaderKey key \<mapsto> [v])"

definition Header_Del :: "Header \<Rightarrow> string \<Rightarrow> Header" where
  "Header_Del h key = h(CanonicalMIMEHeaderKey key := None)"

definition Header_Get :: "Header \<Rightarrow> string \<Rightarrow> string" where
  "Header_Get h key =
     (case h (CanonicalMIMEHeaderKey key) of None \<Rightarrow> [] | Some [] \<Rightarrow> [] | Some (v # _) \<Rightarrow> v)"

text \<open>
  The \<^verbatim>\<open>http.ResponseWriter\<close>: the header map, the status code once \<^verbatim>\<open>WriteHeader\<close> has been
  called (\<^term>\<open>None\<close> before), and the body bytes written so far. The server hands the
  handler a fresh one.
\<close>

record ResponseWriter =
  header :: Header
  status :: "int option"
  body :: string

definition newResponseWriter :: ResponseWriter where
  "newResponseWriter = \<lparr>header = Map.empty, status = None, body = []\<rparr>"

text \<open>A second \<^verbatim>\<open>WriteHeader\<close> is ignored (the server logs it as superfluous).\<close>

definition WriteHeader :: "ResponseWriter \<Rightarrow> int \<Rightarrow> ResponseWriter" where
  "WriteHeader w code = (if status w = None then w\<lparr>status := Some code\<rparr> else w)"

definition StatusOK :: int where "StatusOK = 200"
definition StatusNoContent :: int where "StatusNoContent = 204"
definition StatusBadRequest :: int where "StatusBadRequest = 400"
definition StatusNotFound :: int where "StatusNotFound = 404"
definition StatusMethodNotAllowed :: int where "StatusMethodNotAllowed = 405"

text \<open>
  \<^verbatim>\<open>w.Write(data)\<close>: the first write sends status 200 when no status has been written. (The
  handler writes a body only on that path and through \<^verbatim>\<open>http.Error\<close> with 400, 404 and
  405, statuses that allow a body.)
\<close>

definition Write :: "ResponseWriter \<Rightarrow> string \<Rightarrow> ResponseWriter" where
  "Write w data = (let w' = WriteHeader w StatusOK in w'\<lparr>body := body w' @ data\<rparr>)"

text \<open>
  \<^verbatim>\<open>http.Error(w, msg, code)\<close>: drops \<^verbatim>\<open>Content-Length\<close>, sets the content type to plain text
  and \<^verbatim>\<open>X-Content-Type-Options: nosniff\<close>, writes the status, then the message and a
  newline (\<^verbatim>\<open>fmt.Fprintln\<close>).
\<close>

definition http_Error :: "ResponseWriter \<Rightarrow> string \<Rightarrow> int \<Rightarrow> ResponseWriter" where
  "http_Error w msg code =
     (let h1 = Header_Del (header w) ''Content-Length'';
          h2 = Header_Set h1 ''Content-Type'' ''text/plain; charset=utf-8'';
          h3 = Header_Set h2 ''X-Content-Type-Options'' ''nosniff'';
          w1 = WriteHeader (w\<lparr>header := h3\<rparr>) code
      in Write w1 (msg @ [CHR 0x0A]))"

definition MethodGet :: string where "MethodGet = ''GET''"
definition MethodHead :: string where "MethodHead = ''HEAD''"
definition MethodPost :: string where "MethodPost = ''POST''"
definition MethodPut :: string where "MethodPut = ''PUT''"
definition MethodDelete :: string where "MethodDelete = ''DELETE''"

text \<open>
  The fields of \<^verbatim>\<open>*http.Request\<close> that the handler reads. \<^verbatim>\<open>Body\<close> is given by what
  \<^verbatim>\<open>io.ReadAll(r.Body)\<close> returns on it: the bytes read and the error, if any.
\<close>

record Request =
  Method :: string
  RequestURI :: string
  Body :: "string \<times> error option"

section \<open>Channels\<close>

text \<open>
  A Go channel as the sender sees it: the values sent and not yet taken by the receiver, the
  room (how many values it holds before a send blocks: its buffer, and the receivers
  waiting on it), and whether it has been closed. A send on a closed channel panics; a send
  with no room blocks the sending goroutine.
\<close>

record 'a chan =
  buf :: "'a list"
  cap :: nat
  closed :: bool

datatype 'a send_result = Sent "'a chan" | SendBlocks | SendPanics

definition chan_send :: "'a chan \<Rightarrow> 'a \<Rightarrow> 'a send_result" where
  "chan_send c v =
     (if closed c then SendPanics
      else if length (buf c) < cap c then Sent (c\<lparr>buf := buf c @ [v]\<rparr>)
      else SendBlocks)"

definition make_chan :: "nat \<Rightarrow> 'a chan" where
  "make_chan n = \<lparr>buf = [], cap = n, closed = False\<rparr>"

section \<open>The Proposal Pipe and the key-value store\<close>

text \<open>
  Modelled from the spec: \<^verbatim>\<open>raftnode.ProposePipe\<close> is not among the source files; the tests
  build it as \<^verbatim>\<open>&raftnode.ProposePipe{ProposeC: make(chan string, 1)}\<close> and call its
  \<^verbatim>\<open>Close\<close>. The spec (4.4, 4.1, 7): a single channel-like conduit for submitting proposal
  payloads, paired with an explicit, idempotent close operation. Close is distinct from
  closing the conduit itself; it guarantees that no further submissions are accepted;
  submission after close is a no-op, never a fault (silently ignored, not an error).
  \<^term>\<open>isClosed\<close> is the close signal, \<^term>\<open>ProposeC\<close> the conduit.
\<close>

record 'a ProposePipe =
  ProposeC :: "'a chan"
  isClosed :: bool


datatype submission = Accepted | Ignored | Waits | Faults

definition Propose :: "'a ProposePipe \<Rightarrow> 'a \<Rightarrow> 'a ProposePipe \<times> submission" where
  "Propose p x =
     (if isClosed p then (p, Ignored)
      else case chan_send (ProposeC p) x of
             Sent c \<Rightarrow> (p\<lparr>ProposeC := c\<rparr>, Accepted)
           | SendBlocks \<Rightarrow> (p, Waits)
           | SendPanics \<Rightarrow> (p, Faults))"

definition newProposePipe :: "nat \<Rightarrow> 'a ProposePipe" where
  "newProposePipe n = \<lparr>ProposeC = make_chan n, isClosed = False\<rparr>"

text \<open>
  Modelled from the spec: the \<^verbatim>\<open>kvstore\<close> type (\<^verbatim>\<open>newKVStore\<close>, \<^verbatim>\<open>Propose\<close>, \<^verbatim>\<open>Lookup\<close>) is not among
  the source files. The spec (1, 6): a trivial in-memory key-value map, a flat key-value
  map applied from the committed log; PUT proposes a write. The store serialises a
  key-value pair into the proposal payload and reads it back from the Commit Batch; the
  serialisation is taken to be lossless, so a payload is the pair itself.
\<close>

record kvstore =
  kvStore :: "string \<rightharpoonup> string"
  proposePipe :: "(string \<times> string) ProposePipe"

definition kvstore_Propose :: "kvstore \<Rightarrow> string \<Rightarrow> string \<Rightarrow> kvstore \<times> submission" where
  "kvstore_Propose s k v =
     (case Propose (proposePipe s) (k, v) of (p, r) \<Rightarrow> (s\<lparr>proposePipe := p\<rparr>, r))"

text \<open>\<^verbatim>\<open>Lookup\<close> returns \<^verbatim>\<open>(value, ok)\<close>: \<^term>\<open>Some value\<close> when \<^verbatim>\<open>ok\<close>.\<close>

definition kvstore_Lookup :: "kvstore \<Rightarrow> string \<Rightarrow> string option" where
  "kvstore_Lookup s k = kvStore s k"

text \<open>Applying the payloads of one Commit Batch, in the order of the batch.\<close>

definition applyCommit :: "(string \<rightharpoonup> string) \<Rightarrow> (string \<times> string) list \<Rightarrow> (string \<rightharpoonup> string)" where
  "applyCommit m data = fold (\<lambda>kv m'. m'(fst kv \<mapsto> snd kv)) data m"

text \<open>
  Modelled from the spec (2, 5, 8): on a single node the proposals taken from the Proposal
  Pipe are committed and delivered to the application in the order submitted. One commit
  step takes the first \<open>n\<close> pending proposals off the conduit and the store applies them.
\<close>

definition commitPending :: "nat \<Rightarrow> kvstore \<Rightarrow> kvstore" where
  "commitPending n s =
     (let c = ProposeC (proposePipe s)
      in s\<lparr>kvStore := applyCommit (kvStore s) (take n (buf c)),
            proposePipe := (proposePipe s)\<lparr>ProposeC := c\<lparr>buf := drop n (buf c)\<rparr>\<rparr>\<rparr>)"

definition newKVStore :: "nat \<Rightarrow> kvstore" where
  "newKVStore n = \<lparr>kvStore = Map.empty, proposePipe = newProposePipe n\<rparr>"

section \<open>The HTTP handler (\<^verbatim>\<open>httpapi.go\<close>)\<close>

datatype ConfChangeType =
  ConfChangeAddNode | ConfChangeRemoveNode | ConfChangeUpdateNode | ConfChangeAddLearnerNode

text \<open>\<^verbatim>\<open>raftpb.ConfChange\<close>; a \<^verbatim>\<open>Context\<close> that is not set is \<^verbatim>\<open>nil\<close>, an \<^verbatim>\<open>ID\<close> not set is 0.\<close>

record ConfChange =
  cc_Type :: ConfChangeType
  cc_NodeID :: uint64
  cc_Context :: "string option"
  cc_ID :: uint64

text \<open>
  \<^verbatim>\<open>*raftnode.RaftNode\<close> is not among the source files. The handler calls three of its
  methods; what they return during one request is a parameter of the model.
\<close>

record RaftNode =
  LinearizableReadNotify :: "error option"
  ID :: uint64
  IsLeader :: bool

record httpKVAPI =
  store :: kvstore
  rc :: RaftNode
  confChangeC :: "ConfChange chan"

text \<open>
  The calls the handler makes on its collaborators, in the order it makes them, and how a
  run ends: the handler returns, panics (the server recovers and drops the connection), or
  stays blocked in a channel send. Before a panic or a block the handler has changed
  nothing. The log lines and the deferred \<^verbatim>\<open>r.Body.Close()\<close> are left out.
\<close>

datatype call =
    ReadBody
  | StorePropose string string
  | NodeLinearizableReadNotify
  | StoreLookup string
  | SendConfChange ConfChange
  | NodeID
  | NodeIsLeader

datatype panic = SliceBoundsOutOfRange | SendOnClosedChannel

datatype outcome = Returned httpKVAPI ResponseWriter | Panicked panic | Blocked

text \<open>\<^verbatim>\<open>h.confChangeC <- cc\<close>, then the 204 of both configuration-change paths.\<close>

definition sendConfChange :: "httpKVAPI \<Rightarrow> ResponseWriter \<Rightarrow> ConfChange \<Rightarrow> outcome" where
  "sendConfChange h w cc =
     (case chan_send (confChangeC h) cc of
        Sent c \<Rightarrow> Returned (h\<lparr>confChangeC := c\<rparr>) (WriteHeader w StatusNoContent)
      | SendBlocks \<Rightarrow> Blocked
      | SendPanics \<Rightarrow> Panicked SendOnClosedChannel)"

definition ServeHTTP :: "httpKVAPI \<Rightarrow> ResponseWriter \<Rightarrow> Request \<Rightarrow> outcome \<times> call list" where
  "ServeHTTP h w r =
     (let key = RequestURI r in
      if Method r = MethodPut then
        (case Body r of
           (v, Some err) \<Rightarrow> (Returned h (http_Error w ''Failed on PUT'' StatusBadRequest), [ReadBody])
         | (v, None) \<Rightarrow>
             (case kvstore_Propose (store h) key v of
                (s, Waits) \<Rightarrow> (Blocked, [ReadBody, StorePropose key v])
              | (s, Faults) \<Rightarrow> (Panicked SendOnClosedChannel, [ReadBody, StorePropose key v])
              | (s, _) \<Rightarrow>
                  (Returned (h\<lparr>store := s\<rparr>) (WriteHeader w StatusNoContent),
                   [ReadBody, StorePropose key v])))
      else if Method r = MethodGet then
        (case LinearizableReadNotify (rc h) of
           Some err \<Rightarrow>
             (Returned h (http_Error w ''Failed on GET'' StatusBadRequest), [NodeLinearizableReadNotify])
         | None \<Rightarrow>
             (case kvstore_Lookup (store h) key of
                Some v \<Rightarrow> (Returned h (Write w v), [NodeLinearizableReadNotify, StoreLookup key])
              | None \<Rightarrow>
                  (Returned h (http_Error w ''Failed to GET'' StatusNotFound),
                   [NodeLinearizableReadNotify, StoreLookup key])))
      else if Method r = MethodPost then
        (case Body r of
           (url, Some err) \<Rightarrow> (Returned h (http_Error w ''Failed on POST'' StatusBadRequest), [ReadBody])
         | (url, None) \<Rightarrow>
             if length key < 1 then (Panicked SliceBoundsOutOfRange, [ReadBody])
             else
               (case ParseUint (drop 1 key) 0 64 of
                  (nodeID, Some err) \<Rightarrow>
                    (Returned h (http_Error w ''Failed on POST'' StatusBadRequest), [ReadBody])
                | (nodeID, None) \<Rightarrow>
                    (let cc = \<lparr>cc_Type = ConfChangeAddNode, cc_NodeID = nodeID,
                               cc_Context = Some url, cc_ID = 0\<rparr>
                     in (sendConfChange h w cc, [ReadBody, SendConfChange cc]))))
      else if Method r = MethodDelete then
        (if length key < 1 then (Panicked SliceBoundsOutOfRange, [])
         else
           (case ParseUint (drop 1 key) 0 64 of
              (nodeID, Some err) \<Rightarrow>
                (Returned h (http_Error w ''Failed on DELETE'' StatusBadRequest), [])
            | (nodeID, None) \<Rightarrow>
                (let cc = \<lparr>cc_Type = ConfChangeRemoveNode, cc_NodeID = nodeID,
                           cc_Context = None, cc_ID = 0\<rparr>
                 in (sendConfChange h w cc, [SendConfChange cc]))))
      else if Method r = MethodHead then
        (let h1 = Header_Add (header w) ''X-ID'' (FormatUint10 (ID (rc h)));
             h2 = Header_Add h1 ''X-IS-Leader'' (Sprintf_bool (IsLeader (rc h)))
         in (Returned h (WriteHeader (w\<lparr>header := h2\<rparr>) StatusOK), [NodeID, NodeIsLeader]))
      else
        (let h1 = Header_Set (header w) ''Allow'' MethodPut;
             h2 = Header_Add h1 ''Allow'' MethodGet;
             h3 = Header_Add h2 ''Allow'' MethodPost;
             h4 = Header_Add h3 ''Allow'' MethodDelete
         in (Returned h (http_Error (w\<lparr>header := h4\<rparr>) ''Method not allowed'' StatusMethodNotAllowed),
             [])))"

text \<open>
  The life of one server: requests served one after the other (each with what the node
  answers during it), and commit steps in between. A request whose handler panics or is
  still blocked has changed nothing.
\<close>

datatype event = Serve RaftNode Request | Commit nat

fun step :: "event \<Rightarrow> httpKVAPI \<Rightarrow> httpKVAPI" where
  "step (Serve n r) h =
     (case fst (ServeHTTP (h\<lparr>rc := n\<rparr>) newResponseWriter r) of
        Returned h' w \<Rightarrow> h'
      | Panicked p \<Rightarrow> h
      | Blocked \<Rightarrow> h)"
| "step (Commit n) h = h\<lparr>store := commitPending n (store h)\<rparr>"

definition run :: "event list \<Rightarrow> httpKVAPI \<Rightarrow> httpKVAPI" where
  "run evs h = fold step evs h"

section \<open>The Raft node manager: snapshot policy and shutdown\<close>

text \<open>
  Modelled from the spec: the package \<^verbatim>\<open>raftnode\<close> (\<^verbatim>\<open>NewRaftNode\<close>, its driving loop, commit
  publication, snapshot trigger and shutdown) is not among the source files; the tests use
  \<^verbatim>\<open>raftnode.DefaultSnapshotCount\<close>, \<^verbatim>\<open>raftnode.SnapshotCatchUpEntriesN\<close>, \<^verbatim>\<open>rc.CommitC()\<close>,
  \<^verbatim>\<open>rc.ErrorC()\<close> and the fields \<^verbatim>\<open>Data\<close> and \<^verbatim>\<open>ApplyDoneC\<close> of a commit. The model follows
  sections 3, 4.1, 4.2 and 6 of the spec. The Consensus Engine is opaque there: what it
  reports as newly committed in one readiness cycle is an input of the model.

  A log entry has an index and is either normal, with its payload, or a configuration
  change. The engine reports the committed entries of a cycle in index order without gaps,
  so the model numbers them from the Applied Index on.
\<close>

datatype EntryType = EntryNormal | EntryConfChange

record Entry =
  Index :: nat
  Type :: EntryType
  Payload :: string

text \<open>A Commit Batch as delivered: its payloads; its completion handle is tracked by the node.\<close>

record Commit =
  Data :: "string list"






definition payloads :: "(EntryType \<times> string) list \<Rightarrow> string list" where
  "payloads es = map snd (filter (\<lambda>e. fst e = EntryNormal) es)"



text \<open>
  What reaches the driving loop: the committed entries of a readiness cycle, the
  application closing the completion handle of the latest batch, the close signal of the
  Proposal Pipe. A stopped loop takes nothing; a loop waiting for an overdue completion
  handle delivers no further consensus progress.
\<close>

datatype node_event = Ready "(EntryType \<times> string) list" | ApplyDone | PipeClosed






section \<open>Notions used in the properties\<close>

text \<open>The status code of the response, when the handler returned.\<close>

definition response_status :: "outcome \<Rightarrow> int option" where
  "response_status out = (case out of Returned h w \<Rightarrow> status w | Panicked p \<Rightarrow> None | Blocked \<Rightarrow> None)"

text \<open>The body of the response, when the handler returned.\<close>

definition response_body :: "outcome \<Rightarrow> string option" where
  "response_body out = (case out of Returned h w \<Rightarrow> Some (body w) | Panicked p \<Rightarrow> None | Blocked \<Rightarrow> None)"

text \<open>The number a string of decimal digits denotes.\<close>

definition decimal_value :: "string \<Rightarrow> nat" where
  "decimal_value s = foldl (\<lambda>a c. 10 * a + ((of_char c :: nat) - 48)) 0 s"

text \<open>A PUT request for the key \<open>k\<close>.\<close>

definition is_put_of :: "string \<Rightarrow> event \<Rightarrow> bool" where
  "is_put_of k ev =
     (case ev of Serve n r \<Rightarrow> Method r = MethodPut \<and> RequestURI r = k | Commit m \<Rightarrow> False)"

text \<open>The proposals submitted by the store and not yet committed.\<close>

definition pending :: "httpKVAPI \<Rightarrow> (string \<times> string) list" where
  "pending h = buf (ProposeC (proposePipe (store h)))"

text \<open>The Proposal Pipe of the store is open and its conduit takes one more proposal.\<close>

definition accepting :: "httpKVAPI \<Rightarrow> bool" where
  "accepting h =
     (\<not> isClosed (proposePipe (store h)) \<and> \<not> closed (ProposeC (proposePipe (store h))) \<and>
      length (pending h) < cap (ProposeC (proposePipe (store h))))"

text \<open>The key \<open>k\<close> has the value \<open>x\<close> in the store and no pending proposal writes it.\<close>

definition settled :: "string \<Rightarrow> string option \<Rightarrow> httpKVAPI \<Rightarrow> bool" where
  "settled k x h = (kvStore (store h) k = x \<and> k \<notin> fst ` set (pending h))"

text \<open>
  An event of the node that carries no proposal (no normal entry) and is not the close
  signal, and a node that has neither delivered a batch nor signalled completion.
\<close>

definition quiet :: "node_event \<Rightarrow> bool" where
  "quiet ev = (case ev of Ready es \<Rightarrow> payloads es = [] | ApplyDone \<Rightarrow> True | PipeClosed \<Rightarrow> False)"



section \<open>Properties of the handler\<close>

subsection \<open>The response writer and the branches of \<^verbatim>\<open>ServeHTTP\<close>\<close>

lemmas Method_defs = MethodGet_def MethodHead_def MethodPost_def MethodPut_def MethodDelete_def

lemma status_WriteHeader: "status w = None \<Longrightarrow> status (WriteHeader w code) = Some code"
  by (simp add: WriteHeader_def)

lemma status_http_Error: "status w = None \<Longrightarrow> status (http_Error w msg code) = Some code"
  by (simp add: http_Error_def Write_def WriteHeader_def Let_def)

lemma body_http_Error: "body (http_Error w msg code) = body w @ msg @ [CHR 0x0A]"
  by (simp add: http_Error_def Write_def WriteHeader_def Let_def)

lemma status_Write: "status w = None \<Longrightarrow> status (Write w v) = Some StatusOK"
  by (simp add: Write_def WriteHeader_def Let_def)

lemma body_Write: "body (Write w v) = body w @ v"
  by (simp add: Write_def WriteHeader_def Let_def)

lemma canonical_X_ID: "CanonicalMIMEHeaderKey ''X-ID'' = ''X-Id''"
  by code_simp

lemma canonical_X_IS_Leader: "CanonicalMIMEHeaderKey ''X-IS-Leader'' = ''X-Is-Leader''"
  by code_simp

lemma head_headers:
  "Header_Get (Header_Add (Header_Add Map.empty ''X-ID'' a) ''X-IS-Leader'' b) ''X-ID'' = a"
  "Header_Get (Header_Add (Header_Add Map.empty ''X-ID'' a) ''X-IS-Leader'' b) ''X-IS-Leader'' = b"
  by (simp_all add: Header_Get_def Header_Add_def canonical_X_ID canonical_X_IS_Leader Let_def)

lemma ServeHTTP_Put:
  "Method r = MethodPut \<Longrightarrow>
   ServeHTTP h w r =
     (case Body r of
        (v, Some err) \<Rightarrow> (Returned h (http_Error w ''Failed on PUT'' StatusBadRequest), [ReadBody])
      | (v, None) \<Rightarrow>
          (case kvstore_Propose (store h) (RequestURI r) v of
             (s, Waits) \<Rightarrow> (Blocked, [ReadBody, StorePropose (RequestURI r) v])
           | (s, Faults) \<Rightarrow> (Panicked SendOnClosedChannel, [ReadBody, StorePropose (RequestURI r) v])
           | (s, _) \<Rightarrow>
               (Returned (h\<lparr>store := s\<rparr>) (WriteHeader w StatusNoContent),
                [ReadBody, StorePropose (RequestURI r) v])))"
  by (auto simp add: ServeHTTP_def Method_defs Let_def split: prod.splits option.splits)

lemma ServeHTTP_Get:
  "Method r = MethodGet \<Longrightarrow>
   ServeHTTP h w r =
     (case LinearizableReadNotify (rc h) of
        Some err \<Rightarrow>
          (Returned h (http_Error w ''Failed on GET'' StatusBadRequest), [NodeLinearizableReadNotify])
      | None \<Rightarrow>
          (case kvstore_Lookup (store h) (RequestURI r) of
             Some v \<Rightarrow> (Returned h (Write w v), [NodeLinearizableReadNotify, StoreLookup (RequestURI r)])
           | None \<Rightarrow>
               (Returned h (http_Error w ''Failed to GET'' StatusNotFound),
                [NodeLinearizableReadNotify, StoreLookup (RequestURI r)])))"
  by (auto simp add: ServeHTTP_def Method_defs Let_def split: prod.splits option.splits)

lemma ServeHTTP_Post:
  "Method r = MethodPost \<Longrightarrow>
   ServeHTTP h w r =
     (case Body r of
        (url, Some err) \<Rightarrow> (Returned h (http_Error w ''Failed on POST'' StatusBadRequest), [ReadBody])
      | (url, None) \<Rightarrow>
          if length (RequestURI r) < 1 then (Panicked SliceBoundsOutOfRange, [ReadBody])
          else
            (case ParseUint (drop 1 (RequestURI r)) 0 64 of
               (nodeID, Some err) \<Rightarrow>
                 (Returned h (http_Error w ''Failed on POST'' StatusBadRequest), [ReadBody])
             | (nodeID, None) \<Rightarrow>
                 (sendConfChange h w
                    \<lparr>cc_Type = ConfChangeAddNode, cc_NodeID = nodeID, cc_Context = Some url, cc_ID = 0\<rparr>,
                  [ReadBody, SendConfChange
                    \<lparr>cc_Type = ConfChangeAddNode, cc_NodeID = nodeID, cc_Context = Some url, cc_ID = 0\<rparr>])))"
  by (auto simp add: ServeHTTP_def Method_defs Let_def split: prod.splits option.splits)

lemma ServeHTTP_Delete:
  "Method r = MethodDelete \<Longrightarrow>
   ServeHTTP h w r =
     (if length (RequestURI r) < 1 then (Panicked SliceBoundsOutOfRange, [])
      else
        (case ParseUint (drop 1 (RequestURI r)) 0 64 of
           (nodeID, Some err) \<Rightarrow>
             (Returned h (http_Error w ''Failed on DELETE'' StatusBadRequest), [])
         | (nodeID, None) \<Rightarrow>
             (sendConfChange h w
                \<lparr>cc_Type = ConfChangeRemoveNode, cc_NodeID = nodeID, cc_Context = None, cc_ID = 0\<rparr>,
              [SendConfChange
                \<lparr>cc_Type = ConfChangeRemoveNode, cc_NodeID = nodeID, cc_Context = None, cc_ID = 0\<rparr>])))"
  by (auto simp add: ServeHTTP_def Method_defs Let_def split: prod.splits option.splits)

lemma ServeHTTP_Head:
  "Method r = MethodHead \<Longrightarrow>
   ServeHTTP h w r =
     (Returned h (WriteHeader
        (w\<lparr>header := Header_Add (Header_Add (header w) ''X-ID'' (FormatUint10 (ID (rc h))))
                        ''X-IS-Leader'' (Sprintf_bool (IsLeader (rc h)))\<rparr>) StatusOK),
      [NodeID, NodeIsLeader])"
  by (simp add: ServeHTTP_def Method_defs Let_def)

lemma sendConfChange_open:
  "\<not> closed (confChangeC h) \<Longrightarrow>
   sendConfChange h w cc =
     (if length (buf (confChangeC h)) < cap (confChangeC h)
      then Returned (h\<lparr>confChangeC := (confChangeC h)\<lparr>buf := buf (confChangeC h) @ [cc]\<rparr>\<rparr>)
             (WriteHeader w StatusNoContent)
      else Blocked)"
  by (simp add: sendConfChange_def chan_send_def)

lemma sendConfChange_store:
  "sendConfChange h w cc = Returned h' w' \<Longrightarrow> store h' = store h"
  by (auto simp: sendConfChange_def split: send_result.splits)

lemma decimal_value_digits10: "decimal_value (digits10 n) = n"
proof (induction n rule: digits10.induct)
  case (1 n)
  show ?case
  proof (cases "n < 10")
    case True
    then have "digits10 n = [char_of (48 + n)]" by (simp add: digits10.simps)
    moreover have "(of_char (char_of (48 + n)) :: nat) = 48 + n" using True by simp
    ultimately show ?thesis by (simp add: decimal_value_def)
  next
    case False
    then have d: "digits10 n = digits10 (n div 10) @ [char_of (48 + n mod 10)]"
      by (subst digits10.simps) simp
    have c: "(of_char (char_of (48 + n mod 10)) :: nat) = 48 + n mod 10" by simp
    have "decimal_value (digits10 n) = 10 * decimal_value (digits10 (n div 10)) + n mod 10"
      unfolding d decimal_value_def foldl_append by (simp add: c)
    then show ?thesis using "1.IH" [OF False] by simp
  qed
qed

subsection \<open>Decimal node IDs\<close>

lemma digit_char_facts:
  assumes "k < 10"
  shows "char_of (48 + k) \<noteq> CHR ''_''"
    and "CHR ''0'' \<le> char_of (48 + k)" and "char_of (48 + k) \<le> CHR ''9''"
    and "(of_char (char_of (48 + k)) :: 8 word) - of_char (CHR ''0'') = of_nat k"
proof -
  have v: "(of_char (char_of (48 + k)) :: nat) = 48 + k" using assms by simp
  show "char_of (48 + k) \<noteq> CHR ''_''"
  proof
    assume "char_of (48 + k) = CHR ''_''"
    then have "(of_char (char_of (48 + k)) :: nat) = of_char (CHR ''_'')" by simp
    with v assms show False by simp
  qed
  show "CHR ''0'' \<le> char_of (48 + k)" unfolding less_eq_char_def v by simp
  show "char_of (48 + k) \<le> CHR ''9''" unfolding less_eq_char_def v using assms by simp
  have "(of_char (char_of (48 + k)) :: 8 word) = of_nat (of_char (char_of (48 + k)))"
    by (simp only: of_nat_of_char)
  also have "\<dots> = of_nat (48 + k)" by (simp only: v)
  finally show "(of_char (char_of (48 + k)) :: 8 word) - of_char (CHR ''0'') = of_nat k"
    by simp
qed

lemma unat_of_nat64: "n < 2 ^ 64 \<Longrightarrow> unat (of_nat n :: 64 word) = n"
  by (simp only: unat_of_nat) simp

lemma unat_of_nat8: "n < 2 ^ 8 \<Longrightarrow> unat (of_nat n :: 8 word) = n"
  by (simp only: unat_of_nat) simp

lemma ParseUint_loop_digit:
  assumes k: "k < 10" and a: "a * 10 + k < 2 ^ 64"
  shows "ParseUint_loop b0 10 (maxUint64 div 10 + 1) (- 1) (char_of (48 + k) # rest) (of_nat a) u =
         ParseUint_loop b0 10 (maxUint64 div 10 + 1) (- 1) rest (of_nat (a * 10 + k)) u"
proof -
  have alt: "a < 2 ^ 64" using a by simp
  have ua: "unat (of_nat a :: 64 word) = a" using alt by (rule unat_of_nat64)
  have una: "unat (of_nat (a * 10 + k) :: 64 word) = a * 10 + k"
    using a by (rule unat_of_nat64)
  have um: "unat (of_nat (a * 10) :: 64 word) = a * 10"
    using a by (intro unat_of_nat64) simp
  have uk: "unat (of_nat k :: 8 word) = k" using k by (intro unat_of_nat8) simp
  have d10: "\<not> (of_nat k :: 8 word) \<ge> ucast (10 :: 64 word)"
    unfolding word_le_nat_alt uk using k by simp
  have c: "unat (maxUint64 div 10 + 1 :: 64 word) = 1844674407370955162"
    by (simp add: maxUint64_def)
  have cut: "\<not> (of_nat a :: 64 word) \<ge> maxUint64 div 10 + 1"
    unfolding word_le_nat_alt ua c using a by simp
  have uc: "(ucast (of_nat k :: 8 word) :: 64 word) = of_nat k"
    using k by (simp add: unsigned_of_nat take_bit_nat_eq_self)
  have sum: "(of_nat (a * 10 + k) :: 64 word) = of_nat a * 10 + of_nat k" by simp
  have nolt: "\<not> (of_nat a * 10 + of_nat k :: 64 word) < of_nat a * 10"
  proof -
    have "\<not> (of_nat (a * 10 + k) :: 64 word) < of_nat (a * 10)"
      unfolding word_less_nat_alt una um by simp
    then show ?thesis by simp
  qed
  show ?thesis
    unfolding sum using digit_char_facts [OF k] d10 cut nolt
    by (simp add: Let_def uc)
qed

lemma ParseUint_loop_digits10:
  "n < 2 ^ 64 \<Longrightarrow>
   ParseUint_loop b0 10 (maxUint64 div 10 + 1) (- 1) (digits10 n @ rest) 0 u =
   ParseUint_loop b0 10 (maxUint64 div 10 + 1) (- 1) rest (of_nat n) u"
proof (induction n arbitrary: rest rule: digits10.induct)
  case (1 n)
  show ?case
  proof (cases "n < 10")
    case True
    then have d: "digits10 n = [char_of (48 + n)]" by (simp add: digits10.simps)
    show ?thesis
      unfolding d using ParseUint_loop_digit [of n 0 b0 rest u] True by simp
  next
    case False
    then have d: "digits10 n = digits10 (n div 10) @ [char_of (48 + n mod 10)]"
      by (subst digits10.simps) simp
    have lt: "n div 10 < 2 ^ 64" using "1.prems" by (simp add: less_mult_imp_div_less)
    have eq: "n div 10 * 10 + n mod 10 = n" by simp
    have "ParseUint_loop b0 10 (maxUint64 div 10 + 1) (- 1) (digits10 n @ rest) 0 u =
          ParseUint_loop b0 10 (maxUint64 div 10 + 1) (- 1)
            (char_of (48 + n mod 10) # rest) (of_nat (n div 10)) u"
      unfolding d using "1.IH" [OF False lt, of "char_of (48 + n mod 10) # rest"] by simp
    also have "\<dots> = ParseUint_loop b0 10 (maxUint64 div 10 + 1) (- 1) rest
                        (of_nat (n div 10 * 10 + n mod 10)) u"
      by (rule ParseUint_loop_digit) (use "1.prems" eq in simp_all)
    finally show ?thesis by (simp only: eq)
  qed
qed

lemma digits10_not_Nil: "digits10 n \<noteq> []"
  by (subst digits10.simps) simp

lemma hd_digits10: "hd (digits10 n) = CHR ''0'' \<longleftrightarrow> n = 0"
proof (induction n rule: digits10.induct)
  case (1 n)
  show ?case
  proof (cases "n < 10")
    case True
    then have d: "digits10 n = [char_of (48 + n)]" by (simp add: digits10.simps)
    have "(char_of (48 + n) = CHR ''0'') = ((of_char (char_of (48 + n)) :: nat) = of_char (CHR ''0''))"
      by (metis char_of_char)
    also have "\<dots> = (n = 0)" using True by simp
    finally show ?thesis by (simp add: d)
  next
    case False
    then have d: "digits10 n = digits10 (n div 10) @ [char_of (48 + n mod 10)]"
      by (subst digits10.simps) simp
    have "n div 10 \<noteq> 0" using False by simp
    then show ?thesis using "1.IH" [OF False] False by (simp add: d digits10_not_Nil)
  qed
qed

lemma digits10_0: "digits10 0 = ''0''"
  by code_simp

text \<open>
  \<^verbatim>\<open>ParseUint\<close>, as the handler calls it, reads the decimal digits of any 64-bit value back as that
  value: there is no leading zero but for zero itself, so the base is 10 (8 for \<^verbatim>\<open>0\<close>), and
  the loop never reaches its cutoff.
\<close>

lemma ParseUint_FormatUint10: "ParseUint (FormatUint10 i) 0 64 = (i, None)"
proof (cases "i = 0")
  case True
  then show ?thesis
    by (simp add: FormatUint10_def digits10_0 ParseUint_def IntSize_def)
next
  case False
  let ?s = "digits10 (unat i)"
  have n: "unat i \<noteq> 0" using False by (simp add: unat_eq_0)
  have lt: "unat i < 2 ^ 64" using unsigned_less [of i] by simp
  have ne: "?s \<noteq> []" by (rule digits10_not_Nil)
  have h: "?s ! 0 \<noteq> CHR ''0''"
    using hd_digits10 [of "unat i"] n ne by (simp add: hd_conv_nth)
  have m: "(- 1 :: 64 word) = 18446744073709551615" by simp
  have loop: "ParseUint_loop True 10 (maxUint64 div 10 + 1) 18446744073709551615 ?s 0 False =
      Inr (i, False)"
    using ParseUint_loop_digits10 [OF lt, of True "[]" False] unfolding m by simp
  show ?thesis
    using ne h loop by (simp add: FormatUint10_def ParseUint_def IntSize_def Let_def)
qed

subsection \<open>HEAD\<close>

text \<open>
  C9. For every HEAD request the handler returns with status 200 and an empty body, having
  asked the node for its ID and its leadership; the response header \<^verbatim>\<open>X-ID\<close> holds the
  decimal digits of the node's ID (they denote that number, and \<^verbatim>\<open>ParseUint\<close> reads them back
  as the ID) and the header \<^verbatim>\<open>X-IS-Leader\<close> holds \<^verbatim>\<open>true\<close> or \<^verbatim>\<open>false\<close>, the node's leadership
  flag. The handler's state is unchanged.
\<close>

theorem head_reports_id_and_leadership:
  assumes "Method r = MethodHead"
  shows "\<exists>w. ServeHTTP h newResponseWriter r = (Returned h w, [NodeID, NodeIsLeader]) \<and>
             status w = Some 200 \<and> body w = [] \<and>
             Header_Get (header w) ''X-ID'' = FormatUint10 (ID (rc h)) \<and>
             decimal_value (Header_Get (header w) ''X-ID'') = unat (ID (rc h)) \<and>
             ParseUint (Header_Get (header w) ''X-ID'') 0 64 = (ID (rc h), None) \<and>
             Header_Get (header w) ''X-IS-Leader'' = (if IsLeader (rc h) then ''true'' else ''false'')"
  using assms
  by (simp add: ServeHTTP_Head newResponseWriter_def WriteHeader_def StatusOK_def head_headers
      ParseUint_FormatUint10 decimal_value_digits10 [of "unat (ID (rc h))", folded FormatUint10_def]
      Sprintf_bool_def)

text \<open>C9 on a concrete request: node 3, the leader, answers a HEAD.\<close>

theorem head_reports_id_and_leadership_witness:
  "\<exists>w. ServeHTTP \<lparr>store = newKVStore 1,
                   rc = \<lparr>LinearizableReadNotify = None, ID = 3, IsLeader = True\<rparr>,
                   confChangeC = make_chan 1\<rparr>
          newResponseWriter \<lparr>Method = ''HEAD'', RequestURI = ''/'', Body = ([], None)\<rparr> =
        (Returned \<lparr>store = newKVStore 1,
                   rc = \<lparr>LinearizableReadNotify = None, ID = 3, IsLeader = True\<rparr>,
                   confChangeC = make_chan 1\<rparr> w, [NodeID, NodeIsLeader]) \<and>
       status w = Some 200 \<and> Header_Get (header w) ''X-ID'' = ''3'' \<and>
       Header_Get (header w) ''X-IS-Leader'' = ''true''"
proof -
  have m: "Method \<lparr>Method = ''HEAD'', RequestURI = ''/'', Body = ([], None)\<rparr> = MethodHead"
    by (simp add: MethodHead_def)
  have f: "FormatUint10 3 = ''3''" by code_simp
  from head_reports_id_and_leadership [OF m,
      of "\<lparr>store = newKVStore 1, rc = \<lparr>LinearizableReadNotify = None, ID = 3, IsLeader = True\<rparr>,
           confChangeC = make_chan 1\<rparr>"]
  show ?thesis by (auto simp: f)
qed

subsection \<open>GET and the linearizable-read confirmation\<close>

text \<open>
  C7. For every GET request the first call of the handler is the node's linearizable-read
  confirmation. When it succeeds the store is looked up next. When it fails the handler
  returns status 400 with the body \<^verbatim>\<open>Failed on GET\<close>, makes no other call, gives the same
  response whatever the store holds, and leaves the handler's state (store, node,
  configuration-change channel) as it was: the server goes on as if the request had not
  been made.
\<close>

theorem get_confirms_read_before_store:
  assumes "Method r = MethodGet"
  shows "hd (snd (ServeHTTP h newResponseWriter r)) = NodeLinearizableReadNotify \<and>
         (LinearizableReadNotify (rc h) = None \<longrightarrow>
            snd (ServeHTTP h newResponseWriter r) =
              [NodeLinearizableReadNotify, StoreLookup (RequestURI r)]) \<and>
         (LinearizableReadNotify (rc h) = Some err \<longrightarrow>
            ServeHTTP h newResponseWriter r =
              (Returned h (http_Error newResponseWriter ''Failed on GET'' StatusBadRequest),
               [NodeLinearizableReadNotify]) \<and>
            ServeHTTP (h\<lparr>store := s\<rparr>) newResponseWriter r =
              (Returned (h\<lparr>store := s\<rparr>) (http_Error newResponseWriter ''Failed on GET'' StatusBadRequest),
               [NodeLinearizableReadNotify]) \<and>
            step (Serve (rc h) r) h = h) \<and>
         status (http_Error newResponseWriter ''Failed on GET'' StatusBadRequest) = Some 400 \<and>
         body (http_Error newResponseWriter ''Failed on GET'' StatusBadRequest) =
           ''Failed on GET'' @ [CHR 0x0A]"
  using assms
  by (auto simp add: ServeHTTP_Get status_http_Error body_http_Error newResponseWriter_def
      StatusBadRequest_def split: option.splits)

text \<open>
  C7 on a concrete request: the confirmation times out and the GET of \<^verbatim>\<open>/test-key\<close> is
  answered 400; with a confirmation the same GET goes on to the store.
\<close>

theorem get_confirms_read_before_store_witness:
  "ServeHTTP \<lparr>store = newKVStore 1,
              rc = \<lparr>LinearizableReadNotify = Some (ErrOther ''context deadline exceeded''),
                    ID = 1, IsLeader = False\<rparr>,
              confChangeC = make_chan 1\<rparr>
     newResponseWriter \<lparr>Method = ''GET'', RequestURI = ''/test-key'', Body = ([], None)\<rparr> =
   (Returned \<lparr>store = newKVStore 1,
              rc = \<lparr>LinearizableReadNotify = Some (ErrOther ''context deadline exceeded''),
                    ID = 1, IsLeader = False\<rparr>,
              confChangeC = make_chan 1\<rparr>
      (http_Error newResponseWriter ''Failed on GET'' StatusBadRequest),
    [NodeLinearizableReadNotify]) \<and>
   status (http_Error newResponseWriter ''Failed on GET'' StatusBadRequest) = Some 400 \<and>
   snd (ServeHTTP \<lparr>store = newKVStore 1,
              rc = \<lparr>LinearizableReadNotify = None, ID = 1, IsLeader = False\<rparr>,
              confChangeC = make_chan 1\<rparr>
     newResponseWriter \<lparr>Method = ''GET'', RequestURI = ''/test-key'', Body = ([], None)\<rparr>) =
     [NodeLinearizableReadNotify, StoreLookup ''/test-key'']"
proof -
  have m: "Method \<lparr>Method = ''GET'', RequestURI = ''/test-key'', Body = ([], None)\<rparr> = MethodGet"
    by (simp add: MethodGet_def)
  from get_confirms_read_before_store [OF m,
      of "\<lparr>store = newKVStore 1,
           rc = \<lparr>LinearizableReadNotify = Some (ErrOther ''context deadline exceeded''),
                 ID = 1, IsLeader = False\<rparr>,
           confChangeC = make_chan 1\<rparr>" "ErrOther ''context deadline exceeded''"]
    get_confirms_read_before_store [OF m,
      of "\<lparr>store = newKVStore 1,
           rc = \<lparr>LinearizableReadNotify = None, ID = 1, IsLeader = False\<rparr>,
           confChangeC = make_chan 1\<rparr>"]
  show ?thesis by simp
qed

subsection \<open>POST and DELETE: configuration changes\<close>

text \<open>
  C8. When the path after the first byte of the request URI parses as the node ID and the
  configuration-change channel is open: a POST whose body was read sends an add-node
  change with that node ID and the body as its context, a DELETE sends a remove-node
  change with that node ID and no context. In both cases the handler answers 204 with an
  empty body as soon as the channel has taken the change, which is then pending on the
  channel, and nothing else of the handler's state changes; as long as the channel has no
  room the handler stays in the send and has not answered. The node ID of a path \<^verbatim>\<open>/\<close>
  followed by the decimal digits of a 64-bit value is that value.
\<close>

theorem conf_change_submitted:
  assumes "\<not> closed (confChangeC h)"
    and "ParseUint (drop 1 (RequestURI r)) 0 64 = (nodeID, None)"
  shows "(Method r = MethodPost \<and> Body r = (url, None) \<longrightarrow>
            ServeHTTP h newResponseWriter r =
              (if length (buf (confChangeC h)) < cap (confChangeC h)
               then Returned
                 (h\<lparr>confChangeC := (confChangeC h)\<lparr>buf := buf (confChangeC h) @
                    [\<lparr>cc_Type = ConfChangeAddNode, cc_NodeID = nodeID, cc_Context = Some url,
                      cc_ID = 0\<rparr>]\<rparr>\<rparr>)
                 (WriteHeader newResponseWriter StatusNoContent)
               else Blocked,
               [ReadBody, SendConfChange
                  \<lparr>cc_Type = ConfChangeAddNode, cc_NodeID = nodeID, cc_Context = Some url,
                    cc_ID = 0\<rparr>])) \<and>
         (Method r = MethodDelete \<longrightarrow>
            ServeHTTP h newResponseWriter r =
              (if length (buf (confChangeC h)) < cap (confChangeC h)
               then Returned
                 (h\<lparr>confChangeC := (confChangeC h)\<lparr>buf := buf (confChangeC h) @
                    [\<lparr>cc_Type = ConfChangeRemoveNode, cc_NodeID = nodeID, cc_Context = None,
                      cc_ID = 0\<rparr>]\<rparr>\<rparr>)
                 (WriteHeader newResponseWriter StatusNoContent)
               else Blocked,
               [SendConfChange
                  \<lparr>cc_Type = ConfChangeRemoveNode, cc_NodeID = nodeID, cc_Context = None,
                    cc_ID = 0\<rparr>])) \<and>
         (RequestURI r = CHR ''/'' # FormatUint10 i \<longrightarrow> nodeID = i) \<and>
         status (WriteHeader newResponseWriter StatusNoContent) = Some 204 \<and>
         body (WriteHeader newResponseWriter StatusNoContent) = []"
proof -
  have ne: "\<not> length (RequestURI r) < 1"
  proof
    assume "length (RequestURI r) < 1"
    then have "ParseUint (drop 1 (RequestURI r)) 0 64 = (0, Some ErrSyntax)"
      by (simp add: ParseUint_def)
    with assms(2) show False by simp
  qed
  have dec: "RequestURI r = CHR ''/'' # FormatUint10 i \<Longrightarrow> nodeID = i"
    using assms(2) by (simp add: ParseUint_FormatUint10)
  show ?thesis
    using assms ne dec
    by (simp add: ServeHTTP_Post ServeHTTP_Delete sendConfChange_open WriteHeader_def
        newResponseWriter_def StatusNoContent_def)
qed

lemma parse_4: "ParseUint ''4'' 0 64 = (4, None)"
  by code_simp

lemma parse_0x10: "ParseUint ''0x10'' 0 64 = (16, None)"
  by code_simp

text \<open>
  C8 on concrete requests: the POST of \<^verbatim>\<open>/4\<close> with the peer's address (the change the test
  \<^verbatim>\<open>TestAddNewNode\<close> submits) and the DELETE of \<^verbatim>\<open>/0x10\<close>, node 16.
\<close>

theorem conf_change_submitted_witness:
  "ServeHTTP \<lparr>store = newKVStore 1,
              rc = \<lparr>LinearizableReadNotify = None, ID = 1, IsLeader = True\<rparr>,
              confChangeC = make_chan 1\<rparr>
     newResponseWriter
     \<lparr>Method = ''POST'', RequestURI = ''/4'', Body = (''http://127.0.0.1:10004'', None)\<rparr> =
   (Returned
      \<lparr>store = newKVStore 1,
       rc = \<lparr>LinearizableReadNotify = None, ID = 1, IsLeader = True\<rparr>,
       confChangeC = \<lparr>buf = [\<lparr>cc_Type = ConfChangeAddNode, cc_NodeID = 4,
                               cc_Context = Some ''http://127.0.0.1:10004'', cc_ID = 0\<rparr>],
                      cap = 1, closed = False\<rparr>\<rparr>
      (WriteHeader newResponseWriter StatusNoContent),
    [ReadBody, SendConfChange \<lparr>cc_Type = ConfChangeAddNode, cc_NodeID = 4,
                                cc_Context = Some ''http://127.0.0.1:10004'', cc_ID = 0\<rparr>]) \<and>
   ServeHTTP \<lparr>store = newKVStore 1,
              rc = \<lparr>LinearizableReadNotify = None, ID = 1, IsLeader = True\<rparr>,
              confChangeC = make_chan 1\<rparr>
     newResponseWriter \<lparr>Method = ''DELETE'', RequestURI = ''/0x10'', Body = ([], None)\<rparr> =
   (Returned
      \<lparr>store = newKVStore 1,
       rc = \<lparr>LinearizableReadNotify = None, ID = 1, IsLeader = True\<rparr>,
       confChangeC = \<lparr>buf = [\<lparr>cc_Type = ConfChangeRemoveNode, cc_NodeID = 16,
                               cc_Context = None, cc_ID = 0\<rparr>],
                      cap = 1, closed = False\<rparr>\<rparr>
      (WriteHeader newResponseWriter StatusNoContent),
    [SendConfChange \<lparr>cc_Type = ConfChangeRemoveNode, cc_NodeID = 16, cc_Context = None,
                      cc_ID = 0\<rparr>]) \<and>
   status (WriteHeader newResponseWriter StatusNoContent) = Some 204"
proof -
  let ?h = "\<lparr>store = newKVStore 1,
             rc = \<lparr>LinearizableReadNotify = None, ID = 1, IsLeader = True\<rparr>,
             confChangeC = make_chan 1\<rparr>"
  let ?post = "\<lparr>Method = ''POST'', RequestURI = ''/4'', Body = (''http://127.0.0.1:10004'', None)\<rparr>"
  let ?del = "\<lparr>Method = ''DELETE'', RequestURI = ''/0x10'', Body = ([], None)\<rparr>"
  have open': "\<not> closed (confChangeC ?h)" and room: "length (buf (confChangeC ?h)) < cap (confChangeC ?h)"
    by (simp_all add: make_chan_def)
  have p: "ParseUint (drop 1 (RequestURI ?post)) 0 64 = (4, None)" by (simp add: parse_4)
  have d: "ParseUint (drop 1 (RequestURI ?del)) 0 64 = (16, None)" by (simp add: parse_0x10)
  from conf_change_submitted [OF open' p, of "''http://127.0.0.1:10004''"]
    conf_change_submitted [OF open' d, of "[]"] room
  show ?thesis by (simp add: MethodPost_def MethodDelete_def make_chan_def)
qed

subsection \<open>Malformed requests\<close>

text \<open>
  C10. A PUT whose body cannot be read is answered 400 after the read alone: the store is
  not called and the handler's state is unchanged. A POST or a DELETE with a non-empty
  request URI whose part after the first byte does not parse as an unsigned 64-bit integer
  (base from the prefix) is answered 400: nothing is sent on the configuration-change
  channel and the handler's state is unchanged.
\<close>

theorem malformed_request_changes_nothing:
  "(Method r = MethodPut \<and> Body r = (v, Some e) \<longrightarrow>
      ServeHTTP h newResponseWriter r =
        (Returned h (http_Error newResponseWriter ''Failed on PUT'' StatusBadRequest), [ReadBody])) \<and>
   (Method r = MethodPost \<and> RequestURI r \<noteq> [] \<and>
    ParseUint (drop 1 (RequestURI r)) 0 64 = (x, Some e) \<longrightarrow>
      ServeHTTP h newResponseWriter r =
        (Returned h (http_Error newResponseWriter ''Failed on POST'' StatusBadRequest), [ReadBody])) \<and>
   (Method r = MethodDelete \<and> RequestURI r \<noteq> [] \<and>
    ParseUint (drop 1 (RequestURI r)) 0 64 = (x, Some e) \<longrightarrow>
      ServeHTTP h newResponseWriter r =
        (Returned h (http_Error newResponseWriter ''Failed on DELETE'' StatusBadRequest), [])) \<and>
   status (http_Error newResponseWriter msg StatusBadRequest) = Some 400"
  by (auto simp add: ServeHTTP_Put ServeHTTP_Post ServeHTTP_Delete status_http_Error
      newResponseWriter_def StatusBadRequest_def split: prod.splits option.splits)

lemma parse_abc: "ParseUint ''abc'' 0 64 = (0, Some ErrSyntax)"
  by code_simp

lemma parse_too_large: "ParseUint ''18446744073709551616'' 0 64 = (maxUint64, Some ErrRange)"
  by code_simp

text \<open>
  C10 on concrete requests: a PUT whose body breaks off, a POST of \<^verbatim>\<open>/abc\<close>, and a DELETE of
  \<^verbatim>\<open>/18446744073709551616\<close>, one more than the largest 64-bit value.
\<close>

theorem malformed_request_changes_nothing_witness:
  "ServeHTTP \<lparr>store = newKVStore 1,
              rc = \<lparr>LinearizableReadNotify = None, ID = 1, IsLeader = True\<rparr>,
              confChangeC = make_chan 1\<rparr>
     newResponseWriter
     \<lparr>Method = ''PUT'', RequestURI = ''/k'', Body = (''par'', Some (ErrOther ''unexpected EOF''))\<rparr> =
   (Returned \<lparr>store = newKVStore 1,
              rc = \<lparr>LinearizableReadNotify = None, ID = 1, IsLeader = True\<rparr>,
              confChangeC = make_chan 1\<rparr>
      (http_Error newResponseWriter ''Failed on PUT'' StatusBadRequest), [ReadBody]) \<and>
   ServeHTTP \<lparr>store = newKVStore 1,
              rc = \<lparr>LinearizableReadNotify = None, ID = 1, IsLeader = True\<rparr>,
              confChangeC = make_chan 1\<rparr>
     newResponseWriter
     \<lparr>Method = ''POST'', RequestURI = ''/abc'', Body = (''http://127.0.0.1:10004'', None)\<rparr> =
   (Returned \<lparr>store = newKVStore 1,
              rc = \<lparr>LinearizableReadNotify = None, ID = 1, IsLeader = True\<rparr>,
              confChangeC = make_chan 1\<rparr>
      (http_Error newResponseWriter ''Failed on POST'' StatusBadRequest), [ReadBody]) \<and>
   ServeHTTP \<lparr>store = newKVStore 1,
              rc = \<lparr>LinearizableReadNotify = None, ID = 1, IsLeader = True\<rparr>,
              confChangeC = make_chan 1\<rparr>
     newResponseWriter
     \<lparr>Method = ''DELETE'', RequestURI = ''/18446744073709551616'', Body = ([], None)\<rparr> =
   (Returned \<lparr>store = newKVStore 1,
              rc = \<lparr>LinearizableReadNotify = None, ID = 1, IsLeader = True\<rparr>,
              confChangeC = make_chan 1\<rparr>
      (http_Error newResponseWriter ''Failed on DELETE'' StatusBadRequest), []) \<and>
   status (http_Error newResponseWriter ''Failed on DELETE'' StatusBadRequest) = Some 400"
proof -
  let ?h = "\<lparr>store = newKVStore 1,
             rc = \<lparr>LinearizableReadNotify = None, ID = 1, IsLeader = True\<rparr>,
             confChangeC = make_chan 1\<rparr>"
  let ?put = "\<lparr>Method = ''PUT'', RequestURI = ''/k'', Body = (''par'', Some (ErrOther ''unexpected EOF''))\<rparr>"
  let ?post = "\<lparr>Method = ''POST'', RequestURI = ''/abc'', Body = (''http://127.0.0.1:10004'', None)\<rparr>"
  let ?del = "\<lparr>Method = ''DELETE'', RequestURI = ''/18446744073709551616'', Body = ([], None)\<rparr>"
  have p: "ParseUint (drop 1 (RequestURI ?post)) 0 64 = (0, Some ErrSyntax)" by (simp add: parse_abc)
  have d: "ParseUint (drop 1 (RequestURI ?del)) 0 64 = (maxUint64, Some ErrRange)"
    by (simp add: parse_too_large)
  from malformed_request_changes_nothing
      [where r = ?put and v = "''par''" and e = "ErrOther ''unexpected EOF''" and h = ?h]
    malformed_request_changes_nothing [where r = ?post and e = ErrSyntax and x = 0 and h = ?h]
    malformed_request_changes_nothing
      [where r = ?del and e = ErrRange and x = maxUint64 and h = ?h and msg = "''Failed on DELETE''"]
  show ?thesis using p d by (simp add: MethodPut_def MethodPost_def MethodDelete_def)
qed

text \<open>
  With an empty request URI the slice \<^verbatim>\<open>key[1:]\<close> is out of range and the handler panics. The
  server of \<^verbatim>\<open>net/http\<close> never passes an empty request URI to a handler.
\<close>

lemma empty_uri_panics:
  "ServeHTTP h w \<lparr>Method = ''DELETE'', RequestURI = [], Body = ([], None)\<rparr> =
     (Panicked SliceBoundsOutOfRange, [])"
  by (simp add: ServeHTTP_Delete MethodDelete_def)

subsection \<open>GET after PUT\<close>

lemma run_Cons: "run (ev # evs) h = run evs (step ev h)"
  by (simp add: run_def)

lemma applyCommit_other: "k \<notin> fst ` set xs \<Longrightarrow> applyCommit m xs k = m k"
  unfolding applyCommit_def by (induction xs arbitrary: m) auto

lemma applyCommit_last: "applyCommit m (xs @ [(k, v)]) k = Some v"
  by (simp add: applyCommit_def)

lemma kvstore_Propose_effect:
  "kvstore_Propose s k v = (s', r) \<Longrightarrow>
   kvStore s' = kvStore s \<and>
   (buf (ProposeC (proposePipe s')) = buf (ProposeC (proposePipe s)) \<or>
    buf (ProposeC (proposePipe s')) = buf (ProposeC (proposePipe s)) @ [(k, v)])"
  by (auto simp: kvstore_Propose_def Propose_def chan_send_def split: if_splits)

lemma ServeHTTP_store_other:
  assumes "fst (ServeHTTP h w r) = Returned h' w'" and "Method r \<noteq> MethodPut"
  shows "store h' = store h"
proof -
  consider "Method r = MethodGet" | "Method r = MethodPost" | "Method r = MethodDelete"
    | "Method r = MethodHead"
    | "Method r \<noteq> MethodGet" "Method r \<noteq> MethodPost" "Method r \<noteq> MethodDelete" "Method r \<noteq> MethodHead"
    by blast
  then show ?thesis
  proof cases
    case 1
    then show ?thesis using assms(1)
      by (auto simp: ServeHTTP_Get split: option.splits)
  next
    case 2
    then show ?thesis using assms(1)
      by (auto simp: ServeHTTP_Post dest: sendConfChange_store split: option.splits prod.splits if_splits)
  next
    case 3
    then show ?thesis using assms(1)
      by (auto simp: ServeHTTP_Delete dest: sendConfChange_store split: option.splits prod.splits if_splits)
  next
    case 4
    then show ?thesis using assms(1) by (simp add: ServeHTTP_Head)
  next
    case 5
    then show ?thesis using assms by (simp add: ServeHTTP_def Let_def)
  qed
qed

lemma ServeHTTP_store_put:
  assumes "fst (ServeHTTP h w r) = Returned h' w'" and "Method r = MethodPut"
  shows "kvStore (store h') = kvStore (store h) \<and>
         (pending h' = pending h \<or> pending h' = pending h @ [(RequestURI r, fst (Body r))])"
  using assms
  by (auto simp: ServeHTTP_Put pending_def split: prod.splits option.splits submission.splits
      dest: kvstore_Propose_effect)

lemma settled_Serve:
  assumes "settled k x h" and "\<not> is_put_of k (Serve n r)"
  shows "settled k x (step (Serve n r) h)"
proof (cases "fst (ServeHTTP (h\<lparr>rc := n\<rparr>) newResponseWriter r)")
  case (Returned h' w')
  have s: "settled k x (h\<lparr>rc := n\<rparr>)" using assms(1) by (simp add: settled_def pending_def)
  have "settled k x h'"
  proof (cases "Method r = MethodPut")
    case True
    with assms(2) have "RequestURI r \<noteq> k" by (simp add: is_put_of_def)
    then show ?thesis
      using ServeHTTP_store_put [OF Returned True] s by (auto simp: settled_def)
  next
    case False
    then show ?thesis
      using ServeHTTP_store_other [OF Returned False] s by (simp add: settled_def pending_def)
  qed
  then show ?thesis using Returned by simp
next
  case (Panicked p)
  then show ?thesis using assms(1) by simp
next
  case Blocked
  then show ?thesis using assms(1) by simp
qed

lemma settled_Commit:
  assumes "settled k x h"
  shows "settled k x (step (Commit m) h)"
proof -
  let ?b = "pending h"
  from assms have k: "k \<notin> fst ` set ?b" and x: "kvStore (store h) k = x"
    by (simp_all add: settled_def)
  have "k \<notin> fst ` set (take m ?b)" using k by (auto dest: in_set_takeD)
  then have "applyCommit (kvStore (store h)) (take m ?b) k = x"
    using x by (simp add: applyCommit_other)
  moreover have "k \<notin> fst ` set (drop m ?b)" using k by (auto dest: in_set_dropD)
  ultimately show ?thesis
    by (simp add: settled_def pending_def commitPending_def Let_def)
qed

lemma settled_step:
  assumes "settled k x h" and "\<not> is_put_of k ev"
  shows "settled k x (step ev h)"
proof (cases ev)
  case (Serve n r)
  with assms show ?thesis by (metis settled_Serve)
next
  case (Commit m)
  with assms show ?thesis by (metis settled_Commit)
qed

lemma settled_run:
  "settled k x h \<Longrightarrow> list_all (\<lambda>ev. \<not> is_put_of k ev) evs \<Longrightarrow> settled k x (run evs h)"
  by (induction evs arbitrary: h) (simp_all add: run_def settled_step)

lemma settled_Get:
  assumes "settled k x h" "LinearizableReadNotify node = None" "Method g = MethodGet"
    "RequestURI g = k"
  shows "ServeHTTP (h\<lparr>rc := node\<rparr>) w g =
     (Returned (h\<lparr>rc := node\<rparr>)
        (case x of None \<Rightarrow> http_Error w ''Failed to GET'' StatusNotFound | Some v \<Rightarrow> Write w v),
      [NodeLinearizableReadNotify, StoreLookup k])"
  using assms by (simp add: ServeHTTP_Get settled_def kvstore_Lookup_def split: option.splits)

lemma put_then_commit_settles:
  assumes "Method p = MethodPut" "RequestURI p = k" "Body p = (v, None)" "accepting h"
    "length (pending h) < m"
  shows "settled k (Some v) (step (Commit m) (step (Serve n p) h))"
proof -
  let ?h = "h\<lparr>rc := n\<rparr>"
  let ?s = "(store h)\<lparr>proposePipe := (proposePipe (store h))
              \<lparr>ProposeC := (ProposeC (proposePipe (store h)))\<lparr>buf := pending h @ [(k, v)]\<rparr>\<rparr>\<rparr>"
  have "kvstore_Propose (store ?h) k v = (?s, Accepted)"
    using assms(4) by (simp add: kvstore_Propose_def Propose_def chan_send_def accepting_def pending_def)
  then have "fst (ServeHTTP ?h newResponseWriter p) = Returned (?h\<lparr>store := ?s\<rparr>) (WriteHeader newResponseWriter StatusNoContent)"
    using assms(1-3) by (simp add: ServeHTTP_Put)
  then have "step (Serve n p) h = ?h\<lparr>store := ?s\<rparr>" by simp
  then show ?thesis
    using assms(5) by (simp add: settled_def pending_def commitPending_def Let_def applyCommit_last)
qed

text \<open>
  C6 as stated fails where the node does not confirm the read: the key \<^verbatim>\<open>/test-key\<close> has never
  been set, the confirmation times out, and the GET is answered 400, not 404.
\<close>

theorem get_unset_key_counterexample:
  "kvStore (newKVStore 1) ''/test-key'' = None \<and>
   response_status (fst (ServeHTTP
      \<lparr>store = newKVStore 1,
       rc = \<lparr>LinearizableReadNotify = Some (ErrOther ''context deadline exceeded''),
             ID = 1, IsLeader = False\<rparr>,
       confChangeC = make_chan 1\<rparr>
      newResponseWriter \<lparr>Method = ''GET'', RequestURI = ''/test-key'', Body = ([], None)\<rparr>)) = Some 400 \<and>
   response_status (fst (ServeHTTP
      \<lparr>store = newKVStore 1,
       rc = \<lparr>LinearizableReadNotify = Some (ErrOther ''context deadline exceeded''),
             ID = 1, IsLeader = False\<rparr>,
       confChangeC = make_chan 1\<rparr>
      newResponseWriter \<lparr>Method = ''GET'', RequestURI = ''/test-key'', Body = ([], None)\<rparr>)) \<noteq> Some StatusNotFound"
  by (simp add: ServeHTTP_Get MethodGet_def response_status_def status_http_Error
      newResponseWriter_def StatusBadRequest_def StatusNotFound_def newKVStore_def)

text \<open>
  C6 (amended). When the node confirms the linearizable read: a GET for a key is answered
  404 if, since the store was created empty, no PUT has named that key, whatever other
  requests and commits there were; and a GET for a key is answered 200 with exactly the
  bytes of the body of a PUT of that key, once the proposal of that PUT, accepted by the
  Proposal Pipe, has been committed and applied, and no PUT of that key has come since.
\<close>

theorem get_after_put:
  assumes ok: "LinearizableReadNotify node = None"
    and g: "Method g = MethodGet" "RequestURI g = k"
  shows
    "(list_all (\<lambda>ev. \<not> is_put_of k ev) evs \<longrightarrow>
        ServeHTTP ((run evs \<lparr>store = newKVStore c, rc = n0, confChangeC = ch\<rparr>)\<lparr>rc := node\<rparr>)
          newResponseWriter g =
        (Returned ((run evs \<lparr>store = newKVStore c, rc = n0, confChangeC = ch\<rparr>)\<lparr>rc := node\<rparr>)
           (http_Error newResponseWriter ''Failed to GET'' StatusNotFound),
         [NodeLinearizableReadNotify, StoreLookup k])) \<and>
     status (http_Error newResponseWriter ''Failed to GET'' StatusNotFound) = Some 404 \<and>
     (Method p = MethodPut \<and> RequestURI p = k \<and> Body p = (v, None) \<and> accepting h \<and>
      length (pending h) < m \<and> list_all (\<lambda>ev. \<not> is_put_of k ev) evs' \<longrightarrow>
        ServeHTTP ((run (Serve n1 p # Commit m # evs') h)\<lparr>rc := node\<rparr>) newResponseWriter g =
        (Returned ((run (Serve n1 p # Commit m # evs') h)\<lparr>rc := node\<rparr>) (Write newResponseWriter v),
         [NodeLinearizableReadNotify, StoreLookup k])) \<and>
     status (Write newResponseWriter v) = Some 200 \<and>
     body (Write newResponseWriter v) = v"
proof -
  have "settled k None \<lparr>store = newKVStore c, rc = n0, confChangeC = ch\<rparr>"
    by (simp add: settled_def pending_def newKVStore_def newProposePipe_def make_chan_def)
  then have a: "list_all (\<lambda>ev. \<not> is_put_of k ev) evs \<Longrightarrow>
      settled k None (run evs \<lparr>store = newKVStore c, rc = n0, confChangeC = ch\<rparr>)"
    by (rule settled_run)
  have b: "Method p = MethodPut \<Longrightarrow> RequestURI p = k \<Longrightarrow> Body p = (v, None) \<Longrightarrow> accepting h \<Longrightarrow>
      length (pending h) < m \<Longrightarrow> list_all (\<lambda>ev. \<not> is_put_of k ev) evs' \<Longrightarrow>
      settled k (Some v) (run (Serve n1 p # Commit m # evs') h)"
    unfolding run_Cons by (rule settled_run [OF put_then_commit_settles])
  have c: "status (http_Error newResponseWriter ''Failed to GET'' StatusNotFound) = Some 404"
    by (simp add: status_http_Error newResponseWriter_def StatusNotFound_def)
  have d: "status (Write newResponseWriter v) = Some 200" "body (Write newResponseWriter v) = v"
    by (simp_all add: status_Write body_Write newResponseWriter_def StatusOK_def)
  show ?thesis
    using settled_Get [OF a ok g, of newResponseWriter] settled_Get [OF b ok g, of newResponseWriter] c d
    by simp
qed

text \<open>
  C6 (amended) on the requests of the test \<^verbatim>\<open>TestPutAndGetKeyValue\<close>: before any PUT of
  \<^verbatim>\<open>/test-key\<close> the GET is answered 404; after the PUT of \<^verbatim>\<open>test-value\<close> and its commit the
  GET is answered 200 with \<^verbatim>\<open>test-value\<close>.
\<close>

theorem get_after_put_witness:
  "response_status (fst (ServeHTTP
      ((run [Serve \<lparr>LinearizableReadNotify = None, ID = 1, IsLeader = True\<rparr>
               \<lparr>Method = ''PUT'', RequestURI = ''/other'', Body = (''x'', None)\<rparr>,
             Commit 1]
          \<lparr>store = newKVStore 1,
           rc = \<lparr>LinearizableReadNotify = None, ID = 1, IsLeader = True\<rparr>,
           confChangeC = make_chan 1\<rparr>)
        \<lparr>rc := \<lparr>LinearizableReadNotify = None, ID = 1, IsLeader = True\<rparr>\<rparr>)
      newResponseWriter \<lparr>Method = ''GET'', RequestURI = ''/test-key'', Body = ([], None)\<rparr>)) = Some 404 \<and>
   response_status (fst (ServeHTTP
      ((run [Serve \<lparr>LinearizableReadNotify = None, ID = 1, IsLeader = True\<rparr>
               \<lparr>Method = ''PUT'', RequestURI = ''/test-key'', Body = (''test-value'', None)\<rparr>,
             Commit 1]
          \<lparr>store = newKVStore 1,
           rc = \<lparr>LinearizableReadNotify = None, ID = 1, IsLeader = True\<rparr>,
           confChangeC = make_chan 1\<rparr>)
        \<lparr>rc := \<lparr>LinearizableReadNotify = None, ID = 1, IsLeader = True\<rparr>\<rparr>)
      newResponseWriter \<lparr>Method = ''GET'', RequestURI = ''/test-key'', Body = ([], None)\<rparr>)) = Some 200 \<and>
   response_body (fst (ServeHTTP
      ((run [Serve \<lparr>LinearizableReadNotify = None, ID = 1, IsLeader = True\<rparr>
               \<lparr>Method = ''PUT'', RequestURI = ''/test-key'', Body = (''test-value'', None)\<rparr>,
             Commit 1]
          \<lparr>store = newKVStore 1,
           rc = \<lparr>LinearizableReadNotify = None, ID = 1, IsLeader = True\<rparr>,
           confChangeC = make_chan 1\<rparr>)
        \<lparr>rc := \<lparr>LinearizableReadNotify = None, ID = 1, IsLeader = True\<rparr>\<rparr>)
      newResponseWriter \<lparr>Method = ''GET'', RequestURI = ''/test-key'', Body = ([], None)\<rparr>)) =
     Some ''test-value''"
proof -
  let ?node = "\<lparr>LinearizableReadNotify = None, ID = 1, IsLeader = True\<rparr>"
  let ?g = "\<lparr>Method = ''GET'', RequestURI = ''/test-key'', Body = ([], None)\<rparr>"
  let ?other = "\<lparr>Method = ''PUT'', RequestURI = ''/other'', Body = (''x'', None)\<rparr>"
  let ?put = "\<lparr>Method = ''PUT'', RequestURI = ''/test-key'', Body = (''test-value'', None)\<rparr>"
  let ?h = "\<lparr>store = newKVStore 1, rc = ?node, confChangeC = make_chan 1\<rparr>"
  have ok: "LinearizableReadNotify ?node = None" by simp
  have g: "Method ?g = MethodGet" "RequestURI ?g = ''/test-key''" by (simp_all add: MethodGet_def)
  have quiet: "list_all (\<lambda>ev. \<not> is_put_of ''/test-key'' ev) [Serve ?node ?other, Commit 1]"
    by (simp add: is_put_of_def)
  have put: "Method ?put = MethodPut \<and> RequestURI ?put = ''/test-key'' \<and>
      Body ?put = (''test-value'', None) \<and> accepting ?h \<and> length (pending ?h) < 1 \<and>
      list_all (\<lambda>ev. \<not> is_put_of ''/test-key'' ev) []"
    by (simp add: MethodPut_def accepting_def pending_def newKVStore_def newProposePipe_def
        make_chan_def)
  from get_after_put [OF ok g, where evs = "[Serve ?node ?other, Commit 1]" and c = 1
      and ?n0.0 = ?node and ch = "make_chan 1" and p = ?put and v = "''test-value''" and h = ?h
      and m = 1 and evs' = "[]" and ?n1.0 = ?node] quiet put
  show ?thesis by (simp add: response_status_def response_body_def)
qed

section \<open>Properties of the Proposal Pipe\<close>







section \<open>Properties of the node manager\<close>





subsection \<open>Shutdown\<close>







subsection \<open>The snapshot trigger\<close>





















end
